theory Spec2Isabelle
  imports Complex_Main
begin

section \<open>Python values\<close>

text \<open>
  A Python \<open>str\<close> is a list of code points. File names, the command line, the
  confirmation and the keys of a dict are strs of the code points U+0000 to U+00FF, one
  \<^typ>\<open>char\<close> each. A str that the server sends or a file holds may go beyond them: it is
  \<open>JStr s\<close> when all its code points are below U+0100 and \<open>JUni cps\<close>, the list of its
  code points, when one is not. The code points U+D800 to U+DFFF are the surrogates;
  \<open>json.loads\<close> returns a str with a lone surrogate for an escape such as
  \<open>"\\ud800"\<close>, and such a str has no UTF-8 encoding.

  \<open>jvalue\<close> is what \<open>json.loads\<close> and \<open>response.json()\<close> produce: \<open>None\<close>, a bool, an
  int, a float, a str, a list or a dict with str keys. A dict is held as the list of
  its items; its keys are unique and a lookup is \<^const>\<open>map_of\<close>.
\<close>

datatype jvalue =
    JNull
  | JBool bool
  | JInt int
  | JFloat real
  | JStr string
  | JUni "nat list"
  | JArr "jvalue list"
  | JObj "(string \<times> jvalue) list"

datatype pykey = KStr string | KInt int

text \<open>
  The exceptions the program can meet. All of them are subclasses of Python's
  \<open>Exception\<close>; \<open>Exception m\<close> is the one the program raises itself, with its message.
\<close>

datatype py_exception =
    Exception string
  | KeyError pykey
  | IndexError
  | TypeError
  | JSONDecodeError
  | RequestException
  | FileNotFoundError
  | FileExistsError
  | UnicodeDecodeError
  | UnicodeEncodeError
  | EOFError

definition is_surrogate :: "nat \<Rightarrow> bool" where
  "is_surrogate c = (55296 \<le> c \<and> c \<le> 57343)"

text \<open>The str with the given code points.\<close>

definition mk_str :: "nat list \<Rightarrow> jvalue" where
  "mk_str cps = (if list_all (\<lambda>c. c < 256) cps then JStr (map char_of cps) else JUni cps)"

text \<open>
  \<open>obj[key]\<close>. A dict raises KeyError on a missing key, a list and a str take an integer
  index (negative ones count from the end) and raise IndexError out of range and
  TypeError on a str key; nothing else is subscriptable.
\<close>

definition index_of :: "nat \<Rightarrow> int \<Rightarrow> nat option" where
  "index_of n i =
     (let j = (if i < 0 then int n + i else i)
      in if 0 \<le> j \<and> j < int n then Some (nat j) else None)"

fun subscript :: "jvalue \<Rightarrow> pykey \<Rightarrow> py_exception + jvalue" where
  "subscript (JObj d) (KStr k) =
     (case map_of d k of None \<Rightarrow> Inl (KeyError (KStr k)) | Some v \<Rightarrow> Inr v)"
| "subscript (JObj d) (KInt i) = Inl (KeyError (KInt i))"
| "subscript (JArr xs) (KInt i) =
     (case index_of (length xs) i of None \<Rightarrow> Inl IndexError | Some j \<Rightarrow> Inr (xs ! j))"
| "subscript (JArr xs) (KStr k) = Inl TypeError"
| "subscript (JStr s) (KInt i) =
     (case index_of (length s) i of None \<Rightarrow> Inl IndexError | Some j \<Rightarrow> Inr (JStr [s ! j]))"
| "subscript (JStr s) (KStr k) = Inl TypeError"
| "subscript (JUni cps) (KInt i) =
     (case index_of (length cps) i of
        None \<Rightarrow> Inl IndexError
      | Some j \<Rightarrow> Inr (mk_str [cps ! j]))"
| "subscript (JUni cps) (KStr k) = Inl TypeError"
| "subscript v k = Inl TypeError"

text \<open>\<open>str(n)\<close> for an int: decimal digits, with a minus sign below zero.\<close>

fun str_nat :: "nat \<Rightarrow> string" where
  "str_nat n =
     (if n < 10 then [''0123456789'' ! n]
      else str_nat (n div 10) @ [''0123456789'' ! (n mod 10)])"

definition str_int :: "int \<Rightarrow> string" where
  "str_int i = (if i < 0 then CHR ''-'' # str_nat (nat (- i)) else str_nat (nat i))"

text \<open>
  \<open>str.isspace\<close>, \<open>str.strip()\<close> and \<open>str.lower()\<close> on the code points below 256: the
  whitespace there is U+0009 to U+000D, U+001C to U+0020, U+0085 and U+00A0; the
  upper-case letters are A to Z and U+00C0 to U+00DE without U+00D7, each 32 below its
  lower-case letter.
\<close>

definition isspace :: "char \<Rightarrow> bool" where
  "isspace c =
     (let n = (of_char c :: nat)
      in (9 \<le> n \<and> n \<le> 13) \<or> (28 \<le> n \<and> n \<le> 32) \<or> n = 133 \<or> n = 160)"

definition strip :: "string \<Rightarrow> string" where
  "strip s = rev (dropWhile isspace (rev (dropWhile isspace s)))"

definition lower_char :: "char \<Rightarrow> char" where
  "lower_char c =
     (let n = (of_char c :: nat)
      in if (65 \<le> n \<and> n \<le> 90) \<or> (192 \<le> n \<and> n \<le> 222 \<and> n \<noteq> 215)
         then char_of (n + 32) else c)"

definition lower :: "string \<Rightarrow> string" where
  "lower s = map lower_char s"

section \<open>The environment and the world\<close>

text \<open>
  Everything one run receives from outside is a field of \<open>env\<close>: the platform, the
  command line, what the server answers to the GET and to the POST (a response, or a
  \<open>requests.RequestException\<close>, which covers connection failures and timeouts), the
  function \<open>json.loads\<close> (\<open>None\<close> where it raises JSONDecodeError; \<open>json_loads_wide\<close> is
  the same function on the strs that go beyond U+00FF), the line that \<open>input()\<close> reads
  (\<open>None\<close> at end of input) and the local time.
\<close>

datatype os_family = Posix | Windows

record http_response =
  status_code :: int
  resp_text :: string
  resp_json :: "jvalue option"

datatype http_reply = NetworkError | Response http_response

record struct_time =
  tm_year :: nat
  tm_mon :: nat
  tm_mday :: nat
  tm_hour :: nat
  tm_min :: nat
  tm_sec :: nat

record env =
  platform :: os_family
  argv :: "string list"
  get_reply :: http_reply
  post_reply :: http_reply
  json_loads :: "string \<Rightarrow> jvalue option"
  json_loads_wide :: "nat list \<Rightarrow> jvalue option"
  stdin :: "string option"
  localtime :: struct_time

text \<open>
  The world a run changes: the files (a flat name space of regular files, each holding
  text, as \<open>Text s\<close> when all its code points are below U+0100 and as \<open>WideText cps\<close>
  when one is not, or bytes that are not UTF-8) and the log of the effects in the order
  the program issues them. A printed line whose text is Python's rendering of a value
  other than a str of code points below U+0100, or of an exception other than the
  program's own, keeps that value; the standard output takes every line.
\<close>

datatype fcontent = Text string | WideText "nat list" | Undecodable

datatype printed =
    Line string
  | FmtValue string jvalue
  | FmtExc string py_exception

datatype event =
    HttpGet string nat
  | HttpPost string jvalue nat
  | OpenRead string
  | Input string
  | Rename string string
  | OpenWrite string
  | Write string jvalue
  | Print printed

record world =
  files :: "string \<rightharpoonup> fcontent"
  log :: "event list"

definition emit :: "event \<Rightarrow> world \<Rightarrow> world" where
  "emit e w = w\<lparr>log := log w @ [e]\<rparr>"

text \<open>A statement either returns a value or raises, and leaves a world behind.\<close>

type_synonym 'a prog = "world \<Rightarrow> (py_exception + 'a) \<times> world"

definition lift :: "py_exception + 'a \<Rightarrow> 'a prog" where
  "lift r w = (r, w)"

definition seq :: "'a prog \<Rightarrow> ('a \<Rightarrow> 'b prog) \<Rightarrow> 'b prog" where
  "seq m f w = (case m w of (Inl e, w') \<Rightarrow> (Inl e, w') | (Inr x, w') \<Rightarrow> f x w')"

fun chain :: "unit prog list \<Rightarrow> unit prog" where
  "chain [] = lift (Inr ())"
| "chain (m # ms) = seq m (\<lambda>_. chain ms)"

fun subscripts :: "jvalue \<Rightarrow> pykey list \<Rightarrow> py_exception + jvalue" where
  "subscripts v [] = Inr v"
| "subscripts v (k # ks) =
     (case subscript v k of Inl e \<Rightarrow> Inl e | Inr u \<Rightarrow> subscripts u ks)"

subsection \<open>Library calls\<close>

text \<open>
  \<open>print(f"{prefix}{v}")\<close>: a str is formatted as itself, and so is the message of
  \<open>Exception(m)\<close>.
\<close>

fun fmt_value :: "string \<Rightarrow> jvalue \<Rightarrow> printed" where
  "fmt_value p (JStr s) = Line (p @ s)"
| "fmt_value p v = FmtValue p v"

fun fmt_exc :: "string \<Rightarrow> py_exception \<Rightarrow> printed" where
  "fmt_exc p (Exception m) = Line (p @ m)"
| "fmt_exc p e = FmtExc p e"

definition print :: "printed \<Rightarrow> unit prog" where
  "print p w = (Inr (), emit (Print p) w)"

definition input :: "env \<Rightarrow> string \<Rightarrow> string prog" where
  "input env prompt w =
     (case stdin env of
        None \<Rightarrow> (Inl EOFError, emit (Input prompt) w)
      | Some line \<Rightarrow> (Inr line, emit (Input prompt) w))"

definition requests_post :: "env \<Rightarrow> string \<Rightarrow> jvalue \<Rightarrow> nat \<Rightarrow> http_response prog" where
  "requests_post env url body timeout w =
     (case post_reply env of
        NetworkError \<Rightarrow> (Inl RequestException, emit (HttpPost url body timeout) w)
      | Response r \<Rightarrow> (Inr r, emit (HttpPost url body timeout) w))"

definition response_json :: "http_response \<Rightarrow> py_exception + jvalue" where
  "response_json r = (case resp_json r of None \<Rightarrow> Inl JSONDecodeError | Some v \<Rightarrow> Inr v)"

fun loads :: "env \<Rightarrow> jvalue \<Rightarrow> py_exception + jvalue" where
  "loads env (JStr s) =
     (case json_loads env s of None \<Rightarrow> Inl JSONDecodeError | Some v \<Rightarrow> Inr v)"
| "loads env (JUni cps) =
     (case json_loads_wide env cps of None \<Rightarrow> Inl JSONDecodeError | Some v \<Rightarrow> Inr v)"
| "loads env v = Inl TypeError"

text \<open>
  \<open>time.strftime('%Y%m%d%H%M%S')\<close>: the year, then month, day, hour, minute and second
  on two digits each.
\<close>

definition zfill :: "nat \<Rightarrow> string \<Rightarrow> string" where
  "zfill n s = replicate (n - length s) CHR ''0'' @ s"

definition strftime :: "struct_time \<Rightarrow> string" where
  "strftime t =
     str_nat (tm_year t) @ zfill 2 (str_nat (tm_mon t)) @ zfill 2 (str_nat (tm_mday t))
     @ zfill 2 (str_nat (tm_hour t)) @ zfill 2 (str_nat (tm_min t))
     @ zfill 2 (str_nat (tm_sec t))"

text \<open>
  \<open>os.rename(src, dst)\<close> fails when \<open>src\<close> does not exist; where \<open>dst\<close> exists it
  replaces it silently on POSIX and raises FileExistsError on Windows.
\<close>

definition os_rename :: "env \<Rightarrow> string \<Rightarrow> string \<Rightarrow> unit prog" where
  "os_rename env src dst w =
     (case files w src of
        None \<Rightarrow> (Inl FileNotFoundError, emit (Rename src dst) w)
      | Some c \<Rightarrow>
          if platform env = Windows \<and> files w dst \<noteq> None
          then (Inl FileExistsError, emit (Rename src dst) w)
          else (Inr (), (emit (Rename src dst) w)\<lparr>files := (files w)(src := None, dst \<mapsto> c)\<rparr>))"

text \<open>
  Text mode translates line ends. Reading turns every CR LF and every other CR into LF;
  writing leaves the str as it is on POSIX and writes every LF as CR LF on Windows.
\<close>

fun universal_newlines :: "'a \<Rightarrow> 'a \<Rightarrow> 'a list \<Rightarrow> 'a list" where
  "universal_newlines cr lf [] = []"
| "universal_newlines cr lf [c] = [if c = cr then lf else c]"
| "universal_newlines cr lf (c # d # cs) =
     (if c = cr \<and> d = lf then lf # universal_newlines cr lf cs
      else if c = cr then lf # universal_newlines cr lf (d # cs)
      else c # universal_newlines cr lf (d # cs))"

definition crlf :: "'a \<Rightarrow> 'a \<Rightarrow> 'a list \<Rightarrow> 'a list" where
  "crlf cr lf cs = concat (map (\<lambda>c. if c = lf then [cr, lf] else [c]) cs)"

definition os_text :: "os_family \<Rightarrow> string \<Rightarrow> string" where
  "os_text os s = (case os of Posix \<Rightarrow> s | Windows \<Rightarrow> crlf (CHR 0x0D) (CHR 0x0A) s)"

definition os_points :: "os_family \<Rightarrow> nat list \<Rightarrow> nat list" where
  "os_points os cps = (case os of Posix \<Rightarrow> cps | Windows \<Rightarrow> crlf 13 10 cps)"

text \<open>
  \<open>open(path, "r", encoding="utf-8")\<close> and \<open>f.read()\<close>. The text read is a str, within
  U+0000 to U+00FF or beyond.
\<close>

datatype pystr = Str string | UStr "nat list"

definition read_file :: "string \<Rightarrow> pystr prog" where
  "read_file path w =
     (case files w path of
        None \<Rightarrow> (Inl FileNotFoundError, emit (OpenRead path) w)
      | Some Undecodable \<Rightarrow> (Inl UnicodeDecodeError, emit (OpenRead path) w)
      | Some (Text s) \<Rightarrow>
          (Inr (Str (universal_newlines (CHR 0x0D) (CHR 0x0A) s)), emit (OpenRead path) w)
      | Some (WideText cps) \<Rightarrow>
          (Inr (UStr (universal_newlines 13 10 cps)), emit (OpenRead path) w))"

text \<open>An f-string with one str between two literal parts.\<close>

fun fstring :: "string \<Rightarrow> pystr \<Rightarrow> string \<Rightarrow> jvalue" where
  "fstring p (Str s) q = JStr (p @ s @ q)"
| "fstring p (UStr cps) q = JUni (map of_char p @ cps @ map of_char q)"

text \<open>\<open>open(path, "w", encoding="utf-8")\<close> creates the file or empties it.\<close>

definition open_w :: "string \<Rightarrow> unit prog" where
  "open_w path w = (Inr (), (emit (OpenWrite path) w)\<lparr>files := (files w)(path \<mapsto> Text [])\<rparr>)"

text \<open>
  What \<open>f.write(v)\<close> puts into a file opened in text mode with \<open>encoding="utf-8"\<close>:
  \<open>v\<close> must be a str, else the call raises TypeError; a str that holds a surrogate has no
  UTF-8 encoding and the call raises UnicodeEncodeError; any other str is written with
  the line ends of the platform.
\<close>

fun text_written :: "os_family \<Rightarrow> jvalue \<Rightarrow> py_exception + fcontent" where
  "text_written os (JStr s) = Inr (Text (os_text os s))"
| "text_written os (JUni cps) =
     (if list_ex is_surrogate cps then Inl UnicodeEncodeError
      else Inr (WideText (os_points os cps)))"
| "text_written os v = Inl TypeError"

text \<open>
  \<open>f.write(v)\<close> on the file just opened, closed at the end of the \<open>with\<close> block. A call
  that raises leaves the file as \<open>open\<close> left it, empty.
\<close>

definition f_write :: "env \<Rightarrow> string \<Rightarrow> jvalue \<Rightarrow> unit prog" where
  "f_write env path v w =
     (case text_written (platform env) v of
        Inl e \<Rightarrow> (Inl e, w)
      | Inr c \<Rightarrow> (Inr (), (emit (Write path v) w)\<lparr>files := (files w)(path \<mapsto> c)\<rparr>))"

section \<open>The program\<close>

definition BASE_URL :: string where
  "BASE_URL = ''http://localhost:1234/v1''"

definition MODEL_NAME :: string where
  "MODEL_NAME = ''llama-3.2-1b-instruct''"

definition API_TIMEOUT :: nat where
  "API_TIMEOUT = 120"

text \<open>
  \<open>check_server_available\<close>: the GET to the models endpoint with a timeout of 5; a
  \<open>RequestException\<close> is caught and gives \<open>False\<close>.
\<close>

definition check_server_available :: "env \<Rightarrow> world \<Rightarrow> bool \<times> world" where
  "check_server_available env w =
     (case get_reply env of
        NetworkError \<Rightarrow> (False, emit (HttpGet (BASE_URL @ ''/models'') 5) w)
      | Response response \<Rightarrow>
          (status_code response = 200, emit (HttpGet (BASE_URL @ ''/models'') 5) w))"

definition tools :: jvalue where
  "tools =
     JArr [JObj [
       (''type'', JStr ''function''),
       (''function'', JObj [
         (''name'', JStr ''perform_code_analysis''),
         (''description'', JStr ''Analyzes code for errors and suggests fixes''),
         (''parameters'', JObj [
           (''type'', JStr ''object''),
           (''properties'', JObj [
             (''code'', JObj [
               (''type'', JStr ''string''),
               (''description'', JStr ''The code to analyze'')]),
             (''language'', JObj [
               (''type'', JStr ''string''),
               (''description'', JStr ''Programming language of the code''),
               (''enum'', JArr [JStr ''python'', JStr ''go'', JStr ''javascript'',
                                JStr ''java'', JStr ''c++''])])]),
           (''required'', JArr [JStr ''code'', JStr ''language''])])])]]"

definition request_data :: "pystr \<Rightarrow> jvalue" where
  "request_data code =
     JObj [
       (''model'', JStr MODEL_NAME),
       (''messages'', JArr [
         JObj [(''role'', JStr ''system''),
               (''content'', JStr ''You are an expert code debugging assistant.'')],
         JObj [(''role'', JStr ''user''),
               (''content'', fstring ''Analyze and fix this code:\<newline>```\<newline>'' code
                                     ''\<newline>```'')]]),
       (''tools'', tools),
       (''response_format'', JObj [
         (''type'', JStr ''json_schema''),
         (''json_schema'', JObj [
           (''schema'', JObj [
             (''type'', JStr ''object''),
             (''properties'', JObj [
               (''original_code'', JObj [(''type'', JStr ''string'')]),
               (''fixed_code'', JObj [(''type'', JStr ''string'')]),
               (''explanation'', JObj [(''type'', JStr ''string'')]),
               (''language'', JObj [(''type'', JStr ''string'')]),
               (''error_type'', JObj [(''type'', JStr ''string'')])]),
             (''required'', JArr [JStr ''fixed_code'', JStr ''explanation'',
                                  JStr ''language'', JStr ''error_type''])])])]),
       (''temperature'', JFloat (3 / 10)),
       (''stream'', JBool False)]"

definition analyze_and_fix_code :: "env \<Rightarrow> pystr \<Rightarrow> jvalue prog" where
  "analyze_and_fix_code env code =
     seq (requests_post env (BASE_URL @ ''/chat/completions'') (request_data code) API_TIMEOUT)
       (\<lambda>response.
          if status_code response \<noteq> 200
          then lift (Inl (Exception (''API request failed: '' @ str_int (status_code response)
                                     @ ''\<newline>'' @ resp_text response)))
          else seq (lift (response_json response))
                 (\<lambda>data.
                    seq (lift (subscripts data
                                 [KStr ''choices'', KInt 0, KStr ''message'', KStr ''content'']))
                      (\<lambda>content. lift (loads env content))))"

text \<open>The backup name of \<open>validate_and_save\<close>: \<open>f"{filename}.{time.strftime('%Y%m%d%H%M%S')}.bak"\<close>.\<close>

definition backup_filename :: "env \<Rightarrow> string \<Rightarrow> string" where
  "backup_filename env filename = filename @ ''.'' @ strftime (localtime env) @ ''.bak''"

definition validate_and_save :: "env \<Rightarrow> string \<Rightarrow> jvalue \<Rightarrow> unit prog" where
  "validate_and_save env filename fix =
     seq (input env ''\<newline>Apply these changes? [y/N]: '')
       (\<lambda>line.
          let confirmation = lower (strip line) in
          if confirmation \<noteq> ''y'' then print (Line ''Operation cancelled.'')
          else
            chain [
              os_rename env filename (backup_filename env filename),
              print (Line (''Backup saved to '' @ backup_filename env filename)),
              open_w filename,
              seq (lift (subscript fix (KStr ''fixed_code''))) (f_write env filename),
              print (Line ''Update successful!'')])"

text \<open>\<open>print(f"{prefix}{fix[key]}")\<close>: the subscript is evaluated, then the line is printed.\<close>

definition print_field :: "string \<Rightarrow> jvalue \<Rightarrow> string \<Rightarrow> unit prog" where
  "print_field prefix fix key =
     seq (lift (subscript fix (KStr key))) (\<lambda>v. print (fmt_value prefix v))"

text \<open>The report that \<open>main\<close> prints between the analysis and the confirmation.\<close>

definition report :: "jvalue \<Rightarrow> unit prog" where
  "report fix =
     chain [
       print (Line ''\<newline>=== Code Fix Report ===''),
       print_field ''Language: '' fix ''language'',
       print_field ''Error Type: '' fix ''error_type'',
       print (Line ''\<newline>Original Code:''),
       print_field [] fix ''original_code'',
       print (Line ''\<newline>Fixed Code:''),
       print_field [] fix ''fixed_code'',
       print (Line ''\<newline>Explanation:''),
       print_field [] fix ''explanation'']"

text \<open>
  \<open>main\<close> returns the exit status: 1 where the program calls \<open>sys.exit(1)\<close>, 0 where it
  runs to its end.
\<close>

definition main :: "env \<Rightarrow> world \<Rightarrow> int \<times> world" where
  "main env w =
     (case check_server_available env w of
        (available, w1) \<Rightarrow>
          if \<not> available
          then (1, emit (Print (Line (''LM Studio server not available. Please ensure it's running at ''
                                      @ BASE_URL))) w1)
          else if length (argv env) < 2
          then (1, emit (Print (Line ''Usage: codefixer.py <filename>'')) w1)
          else
            let filename = argv env ! 1 in
            (case read_file filename w1 of
               (Inl e, w2) \<Rightarrow> (1, emit (Print (fmt_exc ''Error reading file: '' e)) w2)
             | (Inr content, w2) \<Rightarrow>
                 (case seq (analyze_and_fix_code env content)
                         (\<lambda>fix. seq (report fix) (\<lambda>_. validate_and_save env filename fix)) w2 of
                    (Inl e, w3) \<Rightarrow> (1, emit (Print (fmt_exc ''Error fixing code: '' e)) w3)
                  | (Inr _, w3) \<Rightarrow> (0, w3))))"

section \<open>Notions used in the statements\<close>

text \<open>
  \<open>field_of v k\<close> is the value a dict \<open>v\<close> holds under the key \<open>k\<close>; a dict without that
  key, and a value that is no dict, have no such field. An analysis result has all its
  fields when it holds the five keys that \<open>main\<close> prints.
\<close>

fun field_of :: "jvalue \<Rightarrow> string \<Rightarrow> jvalue option" where
  "field_of (JObj d) k = map_of d k"
| "field_of v k = None"

definition has_all_fields :: "jvalue \<Rightarrow> bool" where
  "has_all_fields fix = (list_all (\<lambda>k. field_of fix k \<noteq> None)
      [''language'', ''error_type'', ''original_code'', ''fixed_code'', ''explanation''])"

text \<open>
  The requests a log holds for the chat-completions endpoint, and the lines it prints.
\<close>

fun is_post :: "event \<Rightarrow> bool" where
  "is_post (HttpPost url body timeout) = True"
| "is_post e = False"

fun printed_lines :: "event list \<Rightarrow> printed list" where
  "printed_lines [] = []"
| "printed_lines (Print p # es) = p # printed_lines es"
| "printed_lines (e # es) = printed_lines es"

text \<open>
  A statement keeps the files when it leaves every file as it found it, and its log
  grows when it only appends to the log.
\<close>

definition keeps_files :: "'a prog \<Rightarrow> bool" where
  "keeps_files m = (\<forall>w. files (snd (m w)) = files w)"

definition grows :: "'a prog \<Rightarrow> bool" where
  "grows m = (\<forall>w. \<exists>l. log (snd (m w)) = log w @ l)"

section \<open>A sample run\<close>

text \<open>
  The example of the specification: the file \<open>a.py\<close> holds \<open>def f(x): return x+\<close>, the
  server answers with the four required fields, and the user types \<open>y\<close> on
  9 March 2025 at 14:05:00. \<open>ex_loads\<close> is \<open>json.loads\<close> on the two documents the
  examples send; \<open>ex_result\<close> is the same answer with the optional \<open>original_code\<close>.
  \<open>ex_int_result\<close> is an answer whose \<open>fixed_code\<close> is the number 1, and
  \<open>ex_surrogate_result\<close> one whose \<open>fixed_code\<close> is the str of the lone surrogate U+D800.
\<close>

definition ex_time :: struct_time where
  "ex_time = \<lparr>tm_year = 2025, tm_mon = 3, tm_mday = 9, tm_hour = 14, tm_min = 5, tm_sec = 0\<rparr>"

definition ex_partial :: jvalue where
  "ex_partial = JObj [
     (''fixed_code'', JStr ''def f(x): return x''),
     (''explanation'', JStr ''removed trailing operator''),
     (''language'', JStr ''python''),
     (''error_type'', JStr ''SyntaxError'')]"

definition ex_result :: jvalue where
  "ex_result = JObj [
     (''original_code'', JStr ''def f(x): return x+''),
     (''fixed_code'', JStr ''def f(x): return x''),
     (''explanation'', JStr ''removed trailing operator''),
     (''language'', JStr ''python''),
     (''error_type'', JStr ''SyntaxError'')]"

definition ex_content :: string where
  \<open>ex_content = ''{"fixed_code": "def f(x): return x", "explanation": "removed trailing operator", "language": "python", "error_type": "SyntaxError"}''\<close>

definition ex_loads :: "string \<Rightarrow> jvalue option" where
  "ex_loads s = (if s = ex_content then Some ex_partial
                 else if s = ''{}'' then Some (JObj [])
                 else None)"

definition chat_body :: "string \<Rightarrow> jvalue" where
  "chat_body content =
     JObj [(''choices'', JArr [JObj [(''message'', JObj [(''content'', JStr content)])]])]"

definition ex_env :: env where
  "ex_env = \<lparr>platform = Posix, argv = [''codefixer.py'', ''a.py''],
     get_reply = Response \<lparr>status_code = 200, resp_text = [], resp_json = None\<rparr>,
     post_reply = Response \<lparr>status_code = 200, resp_text = [],
                              resp_json = Some (chat_body ex_content)\<rparr>,
     json_loads = ex_loads, json_loads_wide = (\<lambda>cps. None), stdin = Some ''y'', localtime = ex_time\<rparr>"

definition ex_world :: world where
  "ex_world = \<lparr>files = [''a.py'' \<mapsto> Text ''def f(x): return x+''], log = []\<rparr>"

definition ex_error_reply :: http_reply where
  "ex_error_reply = Response \<lparr>status_code = 404, resp_text = ''model not found'', resp_json = None\<rparr>"

definition ex_empty_reply :: http_reply where
  "ex_empty_reply = Response \<lparr>status_code = 200, resp_text = [], resp_json = Some (chat_body ''{}'')\<rparr>"

definition ex_no_choices_reply :: http_reply where
  "ex_no_choices_reply =
     Response \<lparr>status_code = 200, resp_text = [], resp_json = Some (JObj [(''choices'', JArr [])])\<rparr>"

definition ex_int_result :: jvalue where
  "ex_int_result = JObj [
     (''original_code'', JStr ''def f(x): return x+''),
     (''fixed_code'', JInt 1),
     (''explanation'', JStr ''removed trailing operator''),
     (''language'', JStr ''python''),
     (''error_type'', JStr ''SyntaxError'')]"

definition ex_int_content :: string where
  \<open>ex_int_content = ''{"original_code": "def f(x): return x+", "fixed_code": 1, "explanation": "removed trailing operator", "language": "python", "error_type": "SyntaxError"}''\<close>

definition ex_int_env :: env where
  "ex_int_env = ex_env\<lparr>
     post_reply := Response \<lparr>status_code = 200, resp_text = [],
                               resp_json = Some (chat_body ex_int_content)\<rparr>,
     json_loads := (\<lambda>s. if s = ex_int_content then Some ex_int_result else None)\<rparr>"

definition ex_surrogate_result :: jvalue where
  "ex_surrogate_result = JObj [(''fixed_code'', JUni [55296])]"

definition ex_second :: jvalue where
  "ex_second = JObj [(''fixed_code'', JStr ''def f(x): return 2 * x'')]"

definition ex_after_first :: world where
  "ex_after_first = snd (validate_and_save ex_env ''a.py'' ex_result ex_world)"

definition ex_after_second :: world where
  "ex_after_second = snd (validate_and_save ex_env ''a.py'' ex_second ex_after_first)"

section \<open>Auxiliary facts\<close>

subsection \<open>Subscripts and fields\<close>

lemma files_emit: "files (emit e w) = files w"
  by (simp add: emit_def)

lemma log_emit: "log (emit e w) = log w @ [e]"
  by (simp add: emit_def)

lemma subscript_field_Some: "field_of v k = Some x \<Longrightarrow> subscript v (KStr k) = Inr x"
  by (cases v) auto

lemma subscript_field_None: "field_of v k = None \<Longrightarrow> isl (subscript v (KStr k))"
  by (cases v) auto

lemma subscript_Inr_field: "subscript v (KStr k) = Inr x \<Longrightarrow> field_of v k = Some x"
  by (cases v) (auto split: option.splits)

lemma deviating_body:
  assumes "field_of data ''choices'' = None
         \<or> field_of data ''choices'' = Some (JArr [])
         \<or> (\<exists>c cs. field_of data ''choices'' = Some (JArr (c # cs))
               \<and> (field_of c ''message'' = None
                  \<or> (\<exists>m. field_of c ''message'' = Some m \<and> field_of m ''content'' = None)))"
  shows "isl (subscripts data [KStr ''choices'', KInt 0, KStr ''message'', KStr ''content''])"
  using assms
proof (elim disjE exE conjE)
  assume "field_of data ''choices'' = None"
  then show ?thesis using subscript_field_None[of data "''choices''"]
    by (cases "subscript data (KStr ''choices'')") auto
next
  assume "field_of data ''choices'' = Some (JArr [])"
  then show ?thesis by (simp add: subscript_field_Some index_of_def)
next
  fix c cs
  assume "field_of data ''choices'' = Some (JArr (c # cs))" "field_of c ''message'' = None"
  then show ?thesis using subscript_field_None[of c "''message''"]
    by (cases "subscript c (KStr ''message'')") (auto simp: subscript_field_Some index_of_def)
next
  fix c cs m
  assume "field_of data ''choices'' = Some (JArr (c # cs))" "field_of c ''message'' = Some m"
    "field_of m ''content'' = None"
  then show ?thesis using subscript_field_None[of m "''content''"]
    by (cases "subscript m (KStr ''content'')") (auto simp: subscript_field_Some index_of_def)
qed

lemma schema_required:
  "subscripts (request_data code)
     [KStr ''response_format'', KStr ''json_schema'', KStr ''schema'', KStr ''required'']
   = Inr (JArr [JStr ''fixed_code'', JStr ''explanation'', JStr ''language'', JStr ''error_type''])"
  by (simp add: request_data_def)

subsection \<open>Statements that keep the files\<close>

lemma keeps_lift: "keeps_files (lift r)"
  by (simp add: keeps_files_def lift_def)

lemma keeps_print: "keeps_files (print p)"
  by (simp add: keeps_files_def print_def files_emit)

lemma keeps_seq:
  assumes "keeps_files m" and "\<And>x. keeps_files (f x)"
  shows "keeps_files (seq m f)"
  unfolding keeps_files_def
proof
  fix w
  obtain r w' where mw: "m w = (r, w')" by (cases "m w")
  have fw: "files w' = files w" using assms(1) mw by (metis keeps_files_def snd_conv)
  show "files (snd (seq m f w)) = files w"
  proof (cases r)
    case (Inl e)
    then show ?thesis using mw fw by (simp add: seq_def)
  next
    case (Inr x)
    then have "seq m f w = f x w'" using mw by (simp add: seq_def)
    then show ?thesis using assms(2)[of x] fw by (simp add: keeps_files_def)
  qed
qed

lemma keeps_chain: "(\<And>m. m \<in> set ms \<Longrightarrow> keeps_files m) \<Longrightarrow> keeps_files (chain ms)"
  by (induction ms) (auto intro: keeps_lift keeps_seq)

lemma keeps_print_field: "keeps_files (print_field p fix k)"
  unfolding print_field_def by (intro keeps_seq keeps_lift keeps_print)

lemma keeps_report: "keeps_files (report fix)"
  unfolding report_def by (rule keeps_chain) (auto intro: keeps_print keeps_print_field)

lemma keeps_requests_post: "keeps_files (requests_post env url body t)"
  by (auto simp: keeps_files_def requests_post_def files_emit split: http_reply.splits)

lemma keeps_analyze: "keeps_files (analyze_and_fix_code env code)"
  unfolding analyze_and_fix_code_def
  by (intro keeps_seq keeps_requests_post) (auto intro!: keeps_seq keeps_lift)

lemma files_check_server: "files (snd (check_server_available env w)) = files w"
  by (simp add: check_server_available_def files_emit split: http_reply.splits)

lemma files_read_file: "files (snd (read_file path w)) = files w"
  by (simp add: read_file_def files_emit split: option.splits fcontent.splits)

subsection \<open>Statements whose log grows\<close>

lemma grows_lift: "grows (lift r)"
  by (simp add: grows_def lift_def)

lemma grows_print: "grows (print p)"
  by (simp add: grows_def print_def log_emit)

lemma grows_seq:
  assumes "grows m" and "\<And>x. grows (f x)"
  shows "grows (seq m f)"
  unfolding grows_def
proof
  fix w
  obtain r w' where mw: "m w = (r, w')" by (cases "m w")
  obtain l where l: "log w' = log w @ l" using assms(1) mw by (metis grows_def snd_conv)
  show "\<exists>k. log (snd (seq m f w)) = log w @ k"
  proof (cases r)
    case (Inl e)
    then show ?thesis using mw l by (simp add: seq_def)
  next
    case (Inr x)
    then have "seq m f w = f x w'" using mw by (simp add: seq_def)
    moreover obtain k where "log (snd (f x w')) = log w' @ k"
      using assms(2)[of x] by (auto simp: grows_def)
    ultimately show ?thesis using l by simp
  qed
qed

lemma grows_chain: "(\<And>m. m \<in> set ms \<Longrightarrow> grows m) \<Longrightarrow> grows (chain ms)"
  by (induction ms) (auto intro: grows_lift grows_seq)

lemma grows_open_w: "grows (open_w path)"
  by (simp add: grows_def open_w_def log_emit)

lemma grows_f_write: "grows (f_write env path v)"
  by (simp add: grows_def f_write_def log_emit split: sum.splits)

subsection \<open>The report needs all five fields\<close>

lemma seq_fst_Inr:
  "fst (seq m f w) = Inr y \<Longrightarrow> \<exists>x w'. m w = (Inr x, w') \<and> fst (f x w') = Inr y"
  by (cases "m w") (auto simp: seq_def split: sum.splits)

lemma print_field_ok: "fst (print_field p fix k w) = Inr u \<Longrightarrow> field_of fix k \<noteq> None"
  by (cases "subscript fix (KStr k)") (auto simp: print_field_def seq_def lift_def dest: subscript_Inr_field)

lemma chain_ok: "fst (chain ms w) = Inr u \<Longrightarrow> m \<in> set ms \<Longrightarrow> \<exists>w'. fst (m w') = Inr ()"
proof (induction ms arbitrary: w)
  case Nil
  then show ?case by simp
next
  case (Cons a ms)
  from Cons.prems(1) obtain x w' where a: "a w = (Inr x, w')" and r: "fst (chain ms w') = Inr u"
    by (auto dest: seq_fst_Inr)
  show ?case
  proof (cases "m = a")
    case True
    then show ?thesis using a by (metis fst_conv old.unit.exhaust)
  next
    case False
    then show ?thesis using Cons.IH[OF r] Cons.prems(2) by simp
  qed
qed

lemma report_ok_complete:
  assumes "fst (report v w) = Inr u"
  shows "has_all_fields v"
proof -
  have ok: "field_of v k \<noteq> None" if mem: "print_field p v k \<in> set [
       print (Line ''\<newline>=== Code Fix Report ===''),
       print_field ''Language: '' v ''language'',
       print_field ''Error Type: '' v ''error_type'',
       print (Line ''\<newline>Original Code:''),
       print_field [] v ''original_code'',
       print (Line ''\<newline>Fixed Code:''),
       print_field [] v ''fixed_code'',
       print (Line ''\<newline>Explanation:''),
       print_field [] v ''explanation'']" for p k
  proof -
    obtain w' where "fst (print_field p v k w') = Inr ()"
      using chain_ok[OF assms[unfolded report_def] mem] by blast
    then show ?thesis by (rule print_field_ok)
  qed
  have "field_of v ''language'' \<noteq> None" by (rule ok[of "''Language: ''"]) simp
  moreover have "field_of v ''error_type'' \<noteq> None" by (rule ok[of "''Error Type: ''"]) simp
  moreover have "field_of v ''original_code'' \<noteq> None" by (rule ok[of "[]"]) simp
  moreover have "field_of v ''fixed_code'' \<noteq> None" by (rule ok[of "[]"]) simp
  moreover have "field_of v ''explanation'' \<noteq> None" by (rule ok[of "[]"]) simp
  ultimately show ?thesis by (simp add: has_all_fields_def)
qed

subsection \<open>A failed analysis or report ends the run with status 1\<close>

lemma analyze_fst:
  "fst (analyze_and_fix_code env code w) =
     (case post_reply env of
        NetworkError \<Rightarrow> Inl RequestException
      | Response r \<Rightarrow>
          if status_code r \<noteq> 200
          then Inl (Exception (''API request failed: '' @ str_int (status_code r)
                               @ ''\<newline>'' @ resp_text r))
          else (case resp_json r of
                  None \<Rightarrow> Inl JSONDecodeError
                | Some data \<Rightarrow>
                    (case subscripts data [KStr ''choices'', KInt 0, KStr ''message'', KStr ''content''] of
                       Inl e \<Rightarrow> Inl e
                     | Inr c \<Rightarrow> loads env c)))"
  by (simp add: analyze_and_fix_code_def seq_def requests_post_def lift_def response_json_def
           split: http_reply.splits option.splits sum.splits)

lemma body_fails:
  assumes "\<And>code w' v. fst (analyze_and_fix_code env code w') = Inr v \<Longrightarrow> \<not> has_all_fields v"
  shows "\<exists>e w'. seq (analyze_and_fix_code env content)
                  (\<lambda>fix. seq (report fix) (\<lambda>_. validate_and_save env filename fix)) w = (Inl e, w')
               \<and> files w' = files w"
proof -
  obtain r w1 where a: "analyze_and_fix_code env content w = (r, w1)"
    by (cases "analyze_and_fix_code env content w")
  have f1: "files w1 = files w"
    using keeps_analyze[of env content] a by (metis keeps_files_def snd_conv)
  show ?thesis
  proof (cases r)
    case (Inl e)
    then show ?thesis using a f1 by (simp add: seq_def)
  next
    case (Inr v)
    then have nc: "\<not> has_all_fields v" using assms[of content w v] a by simp
    obtain r2 w2 where b: "report v w1 = (r2, w2)" by (cases "report v w1")
    have f2: "files w2 = files w1"
      using keeps_report[of v] b by (metis keeps_files_def snd_conv)
    obtain e where "r2 = Inl e"
      using nc b report_ok_complete[of v w1] by (cases r2) auto
    then show ?thesis using a b Inr f1 f2 by (simp add: seq_def)
  qed
qed

lemma main_fails:
  assumes "\<And>code w' v. fst (analyze_and_fix_code env code w') = Inr v \<Longrightarrow> \<not> has_all_fields v"
  shows "fst (main env w) = 1 \<and> files (snd (main env w)) = files w"
proof -
  obtain av w1 where c: "check_server_available env w = (av, w1)"
    by (cases "check_server_available env w")
  have f1: "files w1 = files w" using files_check_server[of env w] c by simp
  show ?thesis
  proof (cases "av \<and> \<not> length (argv env) < 2")
    case False
    then show ?thesis using c f1 by (auto simp: main_def files_emit)
  next
    case True
    obtain r w2 where rd: "read_file (argv env ! 1) w1 = (r, w2)"
      by (cases "read_file (argv env ! 1) w1")
    have f2: "files w2 = files w1" using files_read_file[of "argv env ! 1" w1] rd by simp
    show ?thesis
    proof (cases r)
      case (Inl e)
      then show ?thesis using c True rd f1 f2 by (simp add: main_def files_emit)
    next
      case (Inr content)
      have "\<exists>e w'. seq (analyze_and_fix_code env content)
           (\<lambda>fix. seq (report fix) (\<lambda>_. validate_and_save env (argv env ! 1) fix)) w2 = (Inl e, w')
           \<and> files w' = files w2"
        by (rule body_fails) (rule assms)
      then obtain e w3 where
        "seq (analyze_and_fix_code env content)
           (\<lambda>fix. seq (report fix) (\<lambda>_. validate_and_save env (argv env ! 1) fix)) w2 = (Inl e, w3)"
        and "files w3 = files w2"
        by blast
      then show ?thesis using c True rd Inr f1 f2 by (simp add: main_def files_emit)
    qed
  qed
qed

subsection \<open>The confirmation test\<close>

lemma lower_char_upper_y: "lower_char CHR ''Y'' = CHR ''y''"
  by code_simp

lemma lower_char_lower_y: "lower_char CHR ''y'' = CHR ''y''"
  by code_simp

lemma lower_y_not_space: "\<not> isspace CHR ''y''"
  by code_simp

lemma upper_y_not_space: "\<not> isspace CHR ''Y''"
  by code_simp

lemma of_char_lower: "(of_char (lower_char c) :: nat) =
   (let n = of_char c in if (65 \<le> n \<and> n \<le> 90) \<or> (192 \<le> n \<and> n \<le> 222 \<and> n \<noteq> 215) then n + 32 else n)"
  by (simp add: lower_char_def Let_def)

lemma lower_char_y: "lower_char c = CHR ''y'' \<longleftrightarrow> c = CHR ''y'' \<or> c = CHR ''Y''"
proof
  assume a: "lower_char c = CHR ''y''"
  have "(of_char (lower_char c) :: nat) = 121" unfolding a by simp
  then have "(of_char c :: nat) = 121 \<or> (of_char c :: nat) = 89"
    unfolding of_char_lower by (auto simp: Let_def split: if_splits)
  then have "(of_char c :: nat) = of_char CHR ''y'' \<or> (of_char c :: nat) = of_char CHR ''Y''" by simp
  then show "c = CHR ''y'' \<or> c = CHR ''Y''" by (metis of_char_eq_iff)
next
  assume "c = CHR ''y'' \<or> c = CHR ''Y''"
  then show "lower_char c = CHR ''y''" using lower_char_upper_y lower_char_lower_y by auto
qed

lemma lower_y: "lower s = ''y'' \<longleftrightarrow> s = ''y'' \<or> s = ''Y''"
  by (cases s) (auto simp: lower_def lower_char_y)

lemma strip_pad:
  assumes "\<forall>x\<in>set a. isspace x" "\<forall>x\<in>set b. isspace x" "\<not> isspace c"
  shows "strip (a @ [c] @ b) = [c]"
proof -
  have "dropWhile isspace (a @ [c] @ b) = c # b"
    using assms by (simp add: dropWhile_append)
  moreover have "dropWhile isspace (rev b @ [c]) = [c]"
    using assms by (simp add: dropWhile_append)
  ultimately show ?thesis by (simp add: strip_def)
qed

lemma strip_single_shape:
  assumes "strip s = [c]"
  shows "\<not> isspace c \<and> (\<exists>a b. s = a @ [c] @ b \<and> (\<forall>x\<in>set a. isspace x) \<and> (\<forall>x\<in>set b. isspace x))"
proof -
  define t where "t = dropWhile isspace s"
  have d: "dropWhile isspace (rev t) = [c]"
    using assms by (simp add: strip_def t_def rev_swap)
  then have nc: "\<not> isspace c"
    by (metis hd_dropWhile list.sel(1) list.distinct(1))
  have "rev t = takeWhile isspace (rev t) @ [c]"
    using d by (metis takeWhile_dropWhile_id)
  then have t: "t = c # rev (takeWhile isspace (rev t))"
    by (metis rev_append rev_rev_ident rev.simps append_Cons append_Nil)
  have s: "s = takeWhile isspace s @ [c] @ rev (takeWhile isspace (rev t))"
    using t by (metis t_def takeWhile_dropWhile_id append_Cons append_Nil)
  have a: "\<forall>x\<in>set (takeWhile isspace s). isspace x"
    by (auto dest: set_takeWhileD)
  have b: "\<forall>x\<in>set (rev (takeWhile isspace (rev t))). isspace x"
    by (auto dest: set_takeWhileD)
  from nc s a b show ?thesis by blast
qed

lemma affirmative_iff:
  "lower (strip line) = ''y'' \<longleftrightarrow>
     (\<exists>a b c. line = a @ [c] @ b \<and> (\<forall>x\<in>set a. isspace x) \<and> (\<forall>x\<in>set b. isspace x)
              \<and> (c = CHR ''y'' \<or> c = CHR ''Y''))"
proof
  assume "lower (strip line) = ''y''"
  then consider "strip line = ''y''" | "strip line = ''Y''" by (auto simp: lower_y)
  then show "\<exists>a b c. line = a @ [c] @ b \<and> (\<forall>x\<in>set a. isspace x) \<and> (\<forall>x\<in>set b. isspace x)
              \<and> (c = CHR ''y'' \<or> c = CHR ''Y'')"
  proof cases
    case 1
    then show ?thesis using strip_single_shape[of line "CHR ''y''"] by blast
  next
    case 2
    then show ?thesis using strip_single_shape[of line "CHR ''Y''"] by blast
  qed
next
  assume "\<exists>a b c. line = a @ [c] @ b \<and> (\<forall>x\<in>set a. isspace x) \<and> (\<forall>x\<in>set b. isspace x)
              \<and> (c = CHR ''y'' \<or> c = CHR ''Y'')"
  then obtain a b c where l: "line = a @ [c] @ b" and a: "\<forall>x\<in>set a. isspace x"
    and b: "\<forall>x\<in>set b. isspace x" and c: "c = CHR ''y'' \<or> c = CHR ''Y''"
    by blast
  have "\<not> isspace c" using c lower_y_not_space upper_y_not_space by auto
  then have "strip line = [c]" unfolding l using a b by (rule strip_pad[rotated 2])
  then show "lower (strip line) = ''y''" using c by (auto simp: lower_y)
qed

subsection \<open>The three outcomes of the confirm-and-persist step\<close>

lemma backup_neq: "backup_filename env filename \<noteq> filename"
proof
  assume "backup_filename env filename = filename"
  then have "length (backup_filename env filename) = length filename" by simp
  then show False by (simp add: backup_filename_def)
qed

lemma save_affirmative_general:
  assumes "stdin env = Some line" and "lower (strip line) = ''y''"
    and "files w filename = Some original"
    and "field_of result ''fixed_code'' = Some v"
    and "text_written (platform env) v = Inr c"
    and "platform env = Posix \<or> files w (backup_filename env filename) = None"
  shows "validate_and_save env filename result w =
     (Inr (),
      \<lparr>files = (files w)(backup_filename env filename \<mapsto> original, filename \<mapsto> c),
       log = log w @ [Input ''\<newline>Apply these changes? [y/N]: '',
                      Rename filename (backup_filename env filename),
                      Print (Line (''Backup saved to '' @ backup_filename env filename)),
                      OpenWrite filename,
                      Write filename v,
                      Print (Line ''Update successful!'')]\<rparr>)"
proof -
  have s: "subscript result (KStr ''fixed_code'') = Inr v"
    using assms(4) by (rule subscript_field_Some)
  have u: "(files w)(filename := None, backup_filename env filename \<mapsto> original,
                     filename \<mapsto> c)
           = (files w)(backup_filename env filename \<mapsto> original, filename \<mapsto> c)"
    using backup_neq[of env filename] by (auto simp: fun_eq_iff)
  show ?thesis
    using assms(1,2,3,5,6) s u
    by (auto simp: validate_and_save_def seq_def input_def os_rename_def print_def open_w_def
          f_write_def lift_def emit_def)
qed

lemma save_affirmative:
  assumes "stdin env = Some line" and "lower (strip line) = ''y''"
    and "files w filename = Some original"
    and "field_of result ''fixed_code'' = Some (JStr code)"
    and "platform env = Posix \<or> files w (backup_filename env filename) = None"
  shows "validate_and_save env filename result w =
     (Inr (),
      \<lparr>files = (files w)(backup_filename env filename \<mapsto> original,
                          filename \<mapsto> Text (os_text (platform env) code)),
       log = log w @ [Input ''\<newline>Apply these changes? [y/N]: '',
                      Rename filename (backup_filename env filename),
                      Print (Line (''Backup saved to '' @ backup_filename env filename)),
                      OpenWrite filename,
                      Write filename (JStr code),
                      Print (Line ''Update successful!'')]\<rparr>)"
  using assms(1,2,3,4) _ assms(5) by (rule save_affirmative_general) simp

text \<open>
  A \<open>fixed_code\<close> that cannot be written: the file has been renamed and opened by then,
  and stays empty.
\<close>

lemma save_unwritable:
  assumes "stdin env = Some line" and "lower (strip line) = ''y''"
    and "files w filename = Some original"
    and "field_of result ''fixed_code'' = Some v"
    and "text_written (platform env) v = Inl e"
    and "platform env = Posix \<or> files w (backup_filename env filename) = None"
  shows "validate_and_save env filename result w =
     (Inl e,
      \<lparr>files = (files w)(backup_filename env filename \<mapsto> original, filename \<mapsto> Text []),
       log = log w @ [Input ''\<newline>Apply these changes? [y/N]: '',
                      Rename filename (backup_filename env filename),
                      Print (Line (''Backup saved to '' @ backup_filename env filename)),
                      OpenWrite filename]\<rparr>)"
proof -
  have s: "subscript result (KStr ''fixed_code'') = Inr v"
    using assms(4) by (rule subscript_field_Some)
  have u: "(files w)(filename := None, backup_filename env filename \<mapsto> original,
                     filename \<mapsto> Text [])
           = (files w)(backup_filename env filename \<mapsto> original, filename \<mapsto> Text [])"
    using backup_neq[of env filename] by (auto simp: fun_eq_iff)
  show ?thesis
    using assms(1,2,3,5,6) s u
    by (auto simp: validate_and_save_def seq_def input_def os_rename_def print_def open_w_def
          f_write_def lift_def emit_def)
qed

lemma surrogate_unwritable: "text_written os (JUni [55296]) = Inl UnicodeEncodeError"
  by (simp add: is_surrogate_def)

lemma windows_line_ends:
  "text_written Windows (JStr ''a\<newline>b'') = Inr (Text [CHR ''a'', CHR 0x0D, CHR 0x0A, CHR ''b''])"
  by (simp add: os_text_def crlf_def)

lemma posix_line_ends: "text_written Posix (JStr s) = Inr (Text s)"
  by (simp add: os_text_def)

lemma read_line_ends:
  "universal_newlines (CHR 0x0D) (CHR 0x0A) [CHR ''a'', CHR 0x0D, CHR 0x0A, CHR ''b'', CHR 0x0D]
     = ''a\<newline>b\<newline>''"
  by simp

lemma save_declined:
  assumes "stdin env = Some line" and "lower (strip line) \<noteq> ''y''"
  shows "validate_and_save env filename result w =
     (Inr (), w\<lparr>log := log w @ [Input ''\<newline>Apply these changes? [y/N]: '',
                                Print (Line ''Operation cancelled.'')]\<rparr>)"
  using assms by (simp add: validate_and_save_def seq_def input_def print_def emit_def)

lemma save_exists_windows:
  assumes "stdin env = Some line" and "lower (strip line) = ''y''"
    and "files w filename = Some c"
    and "platform env = Windows" and "files w (backup_filename env filename) = Some b"
  shows "validate_and_save env filename result w =
     (Inl FileExistsError,
      w\<lparr>log := log w @ [Input ''\<newline>Apply these changes? [y/N]: '',
                        Rename filename (backup_filename env filename)]\<rparr>)"
  using assms
  by (simp add: validate_and_save_def seq_def input_def os_rename_def emit_def)

lemma save_affirmative_log:
  assumes "stdin env = Some line" and "lower (strip line) = ''y''"
  shows "\<exists>rest. log (snd (validate_and_save env filename result w)) =
           log w @ Input ''\<newline>Apply these changes? [y/N]: ''
                 # Rename filename (backup_filename env filename) # rest"
proof -
  let ?w1 = "emit (Input ''\<newline>Apply these changes? [y/N]: '') w"
  let ?tail = "chain [print (Line (''Backup saved to '' @ backup_filename env filename)),
                      open_w filename,
                      seq (lift (subscript result (KStr ''fixed_code''))) (f_write env filename),
                      print (Line ''Update successful!'')]"
  have g: "grows ?tail"
    by (rule grows_chain) (auto intro: grows_print grows_open_w grows_seq grows_lift grows_f_write)
  have v: "validate_and_save env filename result w =
           seq (os_rename env filename (backup_filename env filename)) (\<lambda>_. ?tail) ?w1"
    using assms by (simp add: validate_and_save_def seq_def input_def)
  obtain r w2 where rn: "os_rename env filename (backup_filename env filename) ?w1 = (r, w2)"
    by (cases "os_rename env filename (backup_filename env filename) ?w1")
  have l2: "log w2 = log ?w1 @ [Rename filename (backup_filename env filename)]"
    using rn by (auto simp: os_rename_def log_emit split: option.splits if_splits)
  show ?thesis
  proof (cases r)
    case (Inl e)
    then show ?thesis using v rn l2 by (simp add: seq_def log_emit)
  next
    case (Inr u)
    obtain k where "log (snd (?tail w2)) = log w2 @ k" using g by (auto simp: grows_def)
    then show ?thesis using v rn l2 Inr by (simp add: seq_def log_emit)
  qed
qed

lemma ex_backup_name: "backup_filename ex_env ''a.py'' = ''a.py.20250309140500.bak''"
  by (simp add: backup_filename_def strftime_def zfill_def ex_env_def ex_time_def)

lemma ex_backup_name_upd: "backup_filename (ex_env\<lparr>stdin := s\<rparr>) ''a.py'' = ''a.py.20250309140500.bak''"
  by (simp add: backup_filename_def strftime_def zfill_def ex_env_def ex_time_def)

lemma ex_first_run:
  "validate_and_save ex_env ''a.py'' ex_result ex_world =
     (Inr (),
      \<lparr>files = [''a.py.20250309140500.bak'' \<mapsto> Text ''def f(x): return x+'',
                ''a.py'' \<mapsto> Text ''def f(x): return x''],
       log = [Input ''\<newline>Apply these changes? [y/N]: '',
              Rename ''a.py'' ''a.py.20250309140500.bak'',
              Print (Line ''Backup saved to a.py.20250309140500.bak''),
              OpenWrite ''a.py'',
              Write ''a.py'' (JStr ''def f(x): return x''),
              Print (Line ''Update successful!'')]\<rparr>)"
proof -
  have h1: "stdin ex_env = Some ''y''" by (simp add: ex_env_def)
  have h2: "lower (strip ''y'') = ''y''" by code_simp
  have h3: "files ex_world ''a.py'' = Some (Text ''def f(x): return x+'')"
    by (simp add: ex_world_def)
  have h4: "field_of ex_result ''fixed_code'' = Some (JStr ''def f(x): return x'')"
    by (simp add: ex_result_def)
  have h5: "platform ex_env = Posix \<or> files ex_world (backup_filename ex_env ''a.py'') = None"
    by (simp add: ex_env_def)
  have p: "platform ex_env = Posix" by (simp add: ex_env_def)
  show ?thesis
    using save_affirmative[OF h1 h2 h3 h4 h5]
    by (simp add: ex_backup_name ex_world_def p os_text_def)
qed

lemma ex_surrogate_run:
  "validate_and_save ex_env ''a.py'' ex_surrogate_result ex_world =
     (Inl UnicodeEncodeError,
      \<lparr>files = [''a.py.20250309140500.bak'' \<mapsto> Text ''def f(x): return x+'',
                ''a.py'' \<mapsto> Text []],
       log = [Input ''\<newline>Apply these changes? [y/N]: '',
              Rename ''a.py'' ''a.py.20250309140500.bak'',
              Print (Line ''Backup saved to a.py.20250309140500.bak''),
              OpenWrite ''a.py'']\<rparr>)"
proof -
  have h1: "stdin ex_env = Some ''y''" by (simp add: ex_env_def)
  have h2: "lower (strip ''y'') = ''y''" by code_simp
  have h3: "files ex_world ''a.py'' = Some (Text ''def f(x): return x+'')"
    by (simp add: ex_world_def)
  have h4: "field_of ex_surrogate_result ''fixed_code'' = Some (JUni [55296])"
    by (simp add: ex_surrogate_result_def)
  have h5: "platform ex_env = Posix \<or> files ex_world (backup_filename ex_env ''a.py'') = None"
    by (simp add: ex_env_def)
  show ?thesis
    using save_unwritable[OF h1 h2 h3 h4 surrogate_unwritable h5]
    by (simp add: ex_backup_name ex_world_def)
qed

section \<open>The claims\<close>

text \<open>
  \<^bold>\<open>C1\<close> (as amended). Take an invocation in which the confirmation is affirmative, the
  file exists, the rename can succeed (on POSIX always, on Windows when the backup name
  is free) and \<open>fixed_code\<close> is a str without surrogate, of code points below U+0100 or
  beyond. The confirm-and-persist step returns normally. It renames the file to the
  backup name before it opens and writes the file, as the order of its log shows.
  Afterwards the backup name holds the content the file had before, the file holds
  \<open>fixed_code\<close> (as it is on POSIX, with every LF written as CR LF on Windows), and every
  other file is as it was. The step adds the backup as a new file exactly when no file
  had that name; otherwise it replaces the file of that name.
\<close>

theorem affirmative_backup_then_write:
  assumes "stdin env = Some line" and "lower (strip line) = ''y''"
    and "files w filename = Some original"
    and "field_of result ''fixed_code'' = Some v"
    and "(v = JStr s \<and> c = Text (os_text (platform env) s))
         \<or> (v = JUni cps \<and> \<not> list_ex is_surrogate cps
              \<and> c = WideText (os_points (platform env) cps))"
    and "platform env = Posix \<or> files w (backup_filename env filename) = None"
  shows "fst (validate_and_save env filename result w) = Inr ()
     \<and> log (snd (validate_and_save env filename result w)) =
         log w @ [Input ''\<newline>Apply these changes? [y/N]: '',
                  Rename filename (backup_filename env filename),
                  Print (Line (''Backup saved to '' @ backup_filename env filename)),
                  OpenWrite filename,
                  Write filename v,
                  Print (Line ''Update successful!'')]
     \<and> files (snd (validate_and_save env filename result w)) (backup_filename env filename)
         = Some original
     \<and> files (snd (validate_and_save env filename result w)) filename = Some c
     \<and> (platform env = Posix \<longrightarrow>
          (v = JStr s \<longrightarrow> c = Text s) \<and> (v = JUni cps \<longrightarrow> c = WideText cps))
     \<and> (\<forall>p. p \<noteq> filename \<and> p \<noteq> backup_filename env filename
            \<longrightarrow> files (snd (validate_and_save env filename result w)) p = files w p)
     \<and> dom (files (snd (validate_and_save env filename result w)))
         = insert (backup_filename env filename) (dom (files w))"
proof -
  have t: "text_written (platform env) v = Inr c"
    using assms(5) by auto
  have r: "validate_and_save env filename result w =
     (Inr (),
      \<lparr>files = (files w)(backup_filename env filename \<mapsto> original, filename \<mapsto> c),
       log = log w @ [Input ''\<newline>Apply these changes? [y/N]: '',
                      Rename filename (backup_filename env filename),
                      Print (Line (''Backup saved to '' @ backup_filename env filename)),
                      OpenWrite filename,
                      Write filename v,
                      Print (Line ''Update successful!'')]\<rparr>)"
    using assms(1,2,3,4) t assms(6) by (rule save_affirmative_general)
  have d: "dom ((files w)(backup_filename env filename \<mapsto> original, filename \<mapsto> c))
           = insert (backup_filename env filename) (dom (files w))"
    using assms(3) by auto
  have p: "platform env = Posix \<longrightarrow>
          (v = JStr s \<longrightarrow> c = Text s) \<and> (v = JUni cps \<longrightarrow> c = WideText cps)"
    using assms(5) by (auto simp: os_text_def os_points_def)
  show ?thesis
    using r d p backup_neq[of env filename] by simp
qed

theorem affirmative_backup_then_write_witness:
  "files (snd (validate_and_save ex_env ''a.py'' ex_result ex_world)) ''a.py.20250309140500.bak''
     = Some (Text ''def f(x): return x+'')
   \<and> files (snd (validate_and_save ex_env ''a.py'' ex_result ex_world)) ''a.py''
     = Some (Text ''def f(x): return x'')
   \<and> dom (files (snd (validate_and_save ex_env ''a.py'' ex_result ex_world)))
     = {''a.py.20250309140500.bak'', ''a.py''}
   \<and> log (snd (validate_and_save ex_env ''a.py'' ex_result ex_world)) =
       [Input ''\<newline>Apply these changes? [y/N]: '',
        Rename ''a.py'' ''a.py.20250309140500.bak'',
        Print (Line ''Backup saved to a.py.20250309140500.bak''),
        OpenWrite ''a.py'',
        Write ''a.py'' (JStr ''def f(x): return x''),
        Print (Line ''Update successful!'')]"
proof -
  have h1: "stdin ex_env = Some ''y''" by (simp add: ex_env_def)
  have h2: "lower (strip ''y'') = ''y''" by code_simp
  have h3: "files ex_world ''a.py'' = Some (Text ''def f(x): return x+'')"
    by (simp add: ex_world_def)
  have h4: "field_of ex_result ''fixed_code'' = Some (JStr ''def f(x): return x'')"
    by (simp add: ex_result_def)
  have h5: "(JStr ''def f(x): return x'' = JStr ''def f(x): return x''
              \<and> Text ''def f(x): return x'' = Text (os_text (platform ex_env) ''def f(x): return x''))
         \<or> (JStr ''def f(x): return x'' = JUni [] \<and> \<not> list_ex is_surrogate []
              \<and> Text ''def f(x): return x'' = WideText (os_points (platform ex_env) []))"
    by (simp add: ex_env_def os_text_def)
  have h6: "platform ex_env = Posix \<or> files ex_world (backup_filename ex_env ''a.py'') = None"
    by (simp add: ex_env_def)
  show ?thesis
    using affirmative_backup_then_write[OF h1 h2 h3 h4 h5 h6]
    by (simp add: ex_backup_name ex_world_def insert_commute)
qed

text \<open>
  The claim as it is written is about every affirmative invocation. On the answer whose
  \<open>fixed_code\<close> is the number 1 the user confirms, the file is renamed and opened, and
  \<open>f.write\<close> raises TypeError: the program exits with status 1 and the file is left
  empty. A str with a lone surrogate ends the same way, with UnicodeEncodeError.
\<close>

theorem nonstr_fixed_code_counterexample:
  "stdin ex_int_env = Some ''y''
   \<and> field_of ex_int_result ''fixed_code'' = Some (JInt 1)
   \<and> fst (main ex_int_env ex_world) = 1
   \<and> files (snd (main ex_int_env ex_world)) ''a.py'' = Some (Text [])
   \<and> files (snd (main ex_int_env ex_world)) ''a.py.20250309140500.bak''
       = Some (Text ''def f(x): return x+'')
   \<and> printed_lines (log (snd (main ex_int_env ex_world))) =
       [Line ''\<newline>=== Code Fix Report ==='',
        Line ''Language: python'',
        Line ''Error Type: SyntaxError'',
        Line ''\<newline>Original Code:'',
        Line ''def f(x): return x+'',
        Line ''\<newline>Fixed Code:'',
        FmtValue [] (JInt 1),
        Line ''\<newline>Explanation:'',
        Line ''removed trailing operator'',
        Line ''Backup saved to a.py.20250309140500.bak'',
        FmtExc ''Error fixing code: '' TypeError]"
proof -
  have y: "lower (strip ''y'') = ''y''" by code_simp
  show ?thesis
    by (simp add: main_def check_server_available_def read_file_def seq_def
          analyze_and_fix_code_def requests_post_def lift_def response_json_def report_def
          print_field_def print_def emit_def validate_and_save_def input_def os_rename_def
          open_w_def f_write_def ex_int_env_def ex_env_def ex_world_def chat_body_def
          ex_int_result_def index_of_def Let_def y backup_filename_def strftime_def zfill_def
          ex_time_def)
qed

text \<open>
  \<^bold>\<open>C2\<close> (as amended). For every confirmation input whose stripped and lowercased form is
  not \<open>y\<close>, the confirm-and-persist step prints the cancellation notice and returns
  normally; every file is as it was, so the target keeps its content and no backup is
  created.
\<close>

theorem decline_leaves_file:
  assumes "stdin env = Some line" and "lower (strip line) \<noteq> ''y''"
  shows "fst (validate_and_save env filename result w) = Inr ()
     \<and> files (snd (validate_and_save env filename result w)) = files w
     \<and> log (snd (validate_and_save env filename result w)) =
         log w @ [Input ''\<newline>Apply these changes? [y/N]: '',
                  Print (Line ''Operation cancelled.'')]"
  using save_declined[OF assms] by simp

theorem decline_leaves_file_witness:
  "lower (strip ''n'') \<noteq> ''y''
   \<and> files (snd (validate_and_save (ex_env\<lparr>stdin := Some ''n''\<rparr>) ''a.py'' ex_result ex_world))
       = files ex_world
   \<and> log (snd (validate_and_save (ex_env\<lparr>stdin := Some ''n''\<rparr>) ''a.py'' ex_result ex_world)) =
       [Input ''\<newline>Apply these changes? [y/N]: '', Print (Line ''Operation cancelled.'')]"
proof -
  have h1: "stdin (ex_env\<lparr>stdin := Some ''n''\<rparr>) = Some ''n''" by simp
  have h2: "lower (strip ''n'') \<noteq> ''y''" by code_simp
  show ?thesis
    using h2 decline_leaves_file[OF h1 h2, of "''a.py''" ex_result ex_world]
    by (simp add: ex_world_def)
qed

text \<open>
  The claim as it is written takes every input other than \<open>y\<close> and \<open>Y\<close> for a decline.
  The input \<open>" y"\<close> is neither, and the step strips it, renames the file and writes the
  fix.
\<close>

theorem padded_y_counterexample:
  "lower '' y'' \<noteq> ''y''
   \<and> files ex_world ''a.py'' = Some (Text ''def f(x): return x+'')
   \<and> files ex_world ''a.py.20250309140500.bak'' = None
   \<and> files (snd (validate_and_save (ex_env\<lparr>stdin := Some '' y''\<rparr>) ''a.py'' ex_result ex_world))
        ''a.py'' = Some (Text ''def f(x): return x'')
   \<and> files (snd (validate_and_save (ex_env\<lparr>stdin := Some '' y''\<rparr>) ''a.py'' ex_result ex_world))
        ''a.py.20250309140500.bak'' = Some (Text ''def f(x): return x+'')"
proof -
  have h2: "lower (strip '' y'') = ''y''" by code_simp
  have h4: "field_of ex_result ''fixed_code'' = Some (JStr ''def f(x): return x'')"
    by (simp add: ex_result_def)
  have "validate_and_save (ex_env\<lparr>stdin := Some '' y''\<rparr>) ''a.py'' ex_result ex_world =
     (Inr (),
      \<lparr>files = (files ex_world)(''a.py.20250309140500.bak'' \<mapsto> Text ''def f(x): return x+'',
                                 ''a.py'' \<mapsto> Text ''def f(x): return x''),
       log = log ex_world @ [Input ''\<newline>Apply these changes? [y/N]: '',
                      Rename ''a.py'' ''a.py.20250309140500.bak'',
                      Print (Line (''Backup saved to '' @ ''a.py.20250309140500.bak'')),
                      OpenWrite ''a.py'',
                      Write ''a.py'' (JStr ''def f(x): return x''),
                      Print (Line ''Update successful!'')]\<rparr>)"
    using save_affirmative[of "ex_env\<lparr>stdin := Some '' y''\<rparr>" "'' y''" ex_world "''a.py''"
            "Text ''def f(x): return x+''" ex_result "''def f(x): return x''", OF _ h2 _ h4]
    by (simp add: ex_backup_name_upd os_text_def) (simp add: ex_world_def ex_env_def)
  then show ?thesis by (simp add: ex_world_def lower_def)
qed

text \<open>
  \<^bold>\<open>C3\<close> (the code departs from the claim). The request declares \<open>original_code\<close> optional:
  the \<open>required\<close> list of its response schema names the four other fields only. On the
  example of the specification, whose analysis result has the four required fields and
  no \<open>original_code\<close>, the report stops at \<open>fix["original_code"]\<close> with a KeyError:
  the program prints the language, the error type and the heading of the original code,
  then the diagnostic, and exits with status 1 without having printed the fixed code or
  the explanation.
\<close>

theorem report_fails_without_original_code:
  "subscripts (request_data (Str ''def f(x): return x+''))
     [KStr ''response_format'', KStr ''json_schema'', KStr ''schema'', KStr ''required'']
     = Inr (JArr [JStr ''fixed_code'', JStr ''explanation'', JStr ''language'', JStr ''error_type''])
   \<and> field_of ex_partial ''fixed_code'' = Some (JStr ''def f(x): return x'')
   \<and> field_of ex_partial ''explanation'' = Some (JStr ''removed trailing operator'')
   \<and> field_of ex_partial ''language'' = Some (JStr ''python'')
   \<and> field_of ex_partial ''error_type'' = Some (JStr ''SyntaxError'')
   \<and> field_of ex_partial ''original_code'' = None
   \<and> fst (main ex_env ex_world) = 1
   \<and> printed_lines (log (snd (main ex_env ex_world))) =
       [Line ''\<newline>=== Code Fix Report ==='',
        Line ''Language: python'',
        Line ''Error Type: SyntaxError'',
        Line ''\<newline>Original Code:'',
        FmtExc ''Error fixing code: '' (KeyError (KStr ''original_code''))]
   \<and> files (snd (main ex_env ex_world)) = files ex_world"
proof -
  have run: "fst (main ex_env ex_world) = 1
   \<and> printed_lines (log (snd (main ex_env ex_world))) =
       [Line ''\<newline>=== Code Fix Report ==='',
        Line ''Language: python'',
        Line ''Error Type: SyntaxError'',
        Line ''\<newline>Original Code:'',
        FmtExc ''Error fixing code: '' (KeyError (KStr ''original_code''))]
   \<and> files (snd (main ex_env ex_world)) = files ex_world"
    by (simp add: main_def check_server_available_def read_file_def seq_def
          analyze_and_fix_code_def requests_post_def lift_def response_json_def report_def
          print_field_def print_def emit_def ex_env_def ex_world_def ex_loads_def chat_body_def
          ex_partial_def index_of_def Let_def)
  have fields: "field_of ex_partial ''fixed_code'' = Some (JStr ''def f(x): return x'')
   \<and> field_of ex_partial ''explanation'' = Some (JStr ''removed trailing operator'')
   \<and> field_of ex_partial ''language'' = Some (JStr ''python'')
   \<and> field_of ex_partial ''error_type'' = Some (JStr ''SyntaxError'')
   \<and> field_of ex_partial ''original_code'' = None"
    by (simp add: ex_partial_def)
  show ?thesis using run fields schema_required[of "Str ''def f(x): return x+''"] by simp
qed

text \<open>
  \<^bold>\<open>C4.\<close> When the chat endpoint answers with status 200 and a body whose first choice
  holds a str as message content, and \<open>json.loads\<close> rejects that content or parses it to
  a value without the field \<open>fixed_code\<close>, the program exits with status 1 and every file is
  as it was: the target keeps its content and no backup is created.
\<close>

theorem malformed_content_exit:
  assumes "post_reply env = Response r" and "status_code r = 200"
    and "resp_json r = Some data"
    and "subscripts data [KStr ''choices'', KInt 0, KStr ''message'', KStr ''content'']
           = Inr (JStr content)"
    and "json_loads env content = None
         \<or> (\<exists>v. json_loads env content = Some v \<and> field_of v ''fixed_code'' = None)"
  shows "fst (main env w) = 1 \<and> files (snd (main env w)) = files w"
proof (rule main_fails)
  fix code w' v
  assume "fst (analyze_and_fix_code env code w') = Inr v"
  then have "json_loads env content = Some v"
    using assms(1-4) by (simp add: analyze_fst split: option.splits)
  then have "field_of v ''fixed_code'' = None" using assms(5) by auto
  then show "\<not> has_all_fields v" by (simp add: has_all_fields_def)
qed

theorem malformed_content_exit_witness:
  "json_loads (ex_env\<lparr>post_reply := ex_empty_reply\<rparr>) ''{}'' = Some (JObj [])
   \<and> field_of (JObj []) ''fixed_code'' = None
   \<and> fst (main (ex_env\<lparr>post_reply := ex_empty_reply\<rparr>) ex_world) = 1
   \<and> files (snd (main (ex_env\<lparr>post_reply := ex_empty_reply\<rparr>) ex_world)) = files ex_world"
proof -
  let ?env = "ex_env\<lparr>post_reply := ex_empty_reply\<rparr>"
  let ?r = "\<lparr>status_code = 200, resp_text = [], resp_json = Some (chat_body ''{}'')\<rparr>"
  have h1: "post_reply ?env = Response ?r" by (simp add: ex_empty_reply_def)
  have h2: "status_code ?r = 200" by simp
  have h3: "resp_json ?r = Some (chat_body ''{}'')" by simp
  have h4: "subscripts (chat_body ''{}'')
              [KStr ''choices'', KInt 0, KStr ''message'', KStr ''content''] = Inr (JStr ''{}'')"
    by (simp add: chat_body_def index_of_def)
  have l: "json_loads ?env ''{}'' = Some (JObj [])"
    by (simp add: ex_env_def ex_loads_def ex_content_def)
  then have h5: "json_loads ?env ''{}'' = None
         \<or> (\<exists>v. json_loads ?env ''{}'' = Some v \<and> field_of v ''fixed_code'' = None)"
    by simp
  show ?thesis
    using l malformed_content_exit[OF h1 h2 h3 h4 h5, of ex_world] by simp
qed

text \<open>
  \<^bold>\<open>C5\<close> (as amended). Take two affirmative runs of the confirm-and-persist step on the
  same file name, the second starting where the first ended, whose local times agree to
  the second: they compute the same backup name. On POSIX the second run returns normally
  and replaces the first backup: the backup name then holds what the file held before
  the second run, the first run's \<open>fixed_code\<close>, and no longer the original content. On
  Windows the second run's rename raises FileExistsError and the files stay as the first
  run left them.
\<close>

theorem same_second_backup_replaced:
  assumes "stdin env1 = Some line1" and "lower (strip line1) = ''y''"
    and "stdin env2 = Some line2" and "lower (strip line2) = ''y''"
    and "localtime env2 = localtime env1" and "platform env2 = platform env1"
    and "files w0 filename = Some original"
    and "field_of result1 ''fixed_code'' = Some (JStr code1)"
    and "field_of result2 ''fixed_code'' = Some (JStr code2)"
    and "platform env1 = Posix \<or> files w0 (backup_filename env1 filename) = None"
    and "w1 = snd (validate_and_save env1 filename result1 w0)"
    and "w2 = snd (validate_and_save env2 filename result2 w1)"
  shows "backup_filename env2 filename = backup_filename env1 filename
     \<and> files w1 (backup_filename env1 filename) = Some original
     \<and> files w1 filename = Some (Text (os_text (platform env1) code1))
     \<and> (platform env1 = Posix \<longrightarrow>
          fst (validate_and_save env2 filename result2 w1) = Inr ()
          \<and> files w2 (backup_filename env1 filename) = Some (Text code1)
          \<and> files w2 filename = Some (Text code2)
          \<and> (\<forall>p. p \<noteq> filename \<and> p \<noteq> backup_filename env1 filename \<longrightarrow> files w2 p = files w0 p))
     \<and> (platform env1 = Windows \<longrightarrow>
          fst (validate_and_save env2 filename result2 w1) = Inl FileExistsError
          \<and> files w2 = files w1)"
proof -
  let ?b = "backup_filename env1 filename"
  have b: "backup_filename env2 filename = ?b"
    using assms(5) by (simp add: backup_filename_def)
  have nb: "?b \<noteq> filename" by (rule backup_neq)
  have r1: "validate_and_save env1 filename result1 w0 =
     (Inr (),
      \<lparr>files = (files w0)(?b \<mapsto> original,
                           filename \<mapsto> Text (os_text (platform env1) code1)),
       log = log w0 @ [Input ''\<newline>Apply these changes? [y/N]: '',
                      Rename filename ?b,
                      Print (Line (''Backup saved to '' @ ?b)),
                      OpenWrite filename,
                      Write filename (JStr code1),
                      Print (Line ''Update successful!'')]\<rparr>)"
    using assms(1,2,7,8,10) by (rule save_affirmative)
  have f1: "files w1 = (files w0)(?b \<mapsto> original,
                                  filename \<mapsto> Text (os_text (platform env1) code1))"
    using r1 assms(11) by simp
  have f1b: "files w1 ?b = Some original"
    and f1f: "files w1 filename = Some (Text (os_text (platform env1) code1))"
    using f1 nb by simp_all
  have posix: "fst (validate_and_save env2 filename result2 w1) = Inr ()
          \<and> files w2 ?b = Some (Text code1)
          \<and> files w2 filename = Some (Text code2)
          \<and> (\<forall>p. p \<noteq> filename \<and> p \<noteq> ?b \<longrightarrow> files w2 p = files w0 p)"
    if p: "platform env1 = Posix"
  proof -
    have "platform env2 = Posix \<or> files w1 (backup_filename env2 filename) = None"
      using p assms(6) by simp
    from save_affirmative[OF assms(3,4) f1f assms(9) this]
    show ?thesis using assms(12) assms(6) p b f1 nb by (simp add: os_text_def)
  qed
  have windows: "fst (validate_and_save env2 filename result2 w1) = Inl FileExistsError
          \<and> files w2 = files w1"
    if p: "platform env1 = Windows"
  proof -
    have "platform env2 = Windows" using p assms(6) by simp
    moreover have "files w1 (backup_filename env2 filename) = Some original"
      using f1b b by simp
    ultimately show ?thesis
      using save_exists_windows[OF assms(3,4) f1f] assms(12) by simp
  qed
  show ?thesis using b f1b f1f posix windows by blast
qed

theorem same_second_backup_replaced_witness:
  "files ex_after_first ''a.py.20250309140500.bak'' = Some (Text ''def f(x): return x+'')
   \<and> fst (validate_and_save ex_env ''a.py'' ex_second ex_after_first) = Inr ()
   \<and> files ex_after_second ''a.py.20250309140500.bak'' = Some (Text ''def f(x): return x'')
   \<and> files ex_after_second ''a.py'' = Some (Text ''def f(x): return 2 * x'')"
proof -
  have h1: "stdin ex_env = Some ''y''" by (simp add: ex_env_def)
  have h2: "lower (strip ''y'') = ''y''" by code_simp
  have h3: "files ex_world ''a.py'' = Some (Text ''def f(x): return x+'')"
    by (simp add: ex_world_def)
  have h4: "field_of ex_result ''fixed_code'' = Some (JStr ''def f(x): return x'')"
    by (simp add: ex_result_def)
  have h5: "field_of ex_second ''fixed_code'' = Some (JStr ''def f(x): return 2 * x'')"
    by (simp add: ex_second_def)
  have h6: "platform ex_env = Posix \<or> files ex_world (backup_filename ex_env ''a.py'') = None"
    by (simp add: ex_env_def)
  have p: "platform ex_env = Posix" by (simp add: ex_env_def)
  show ?thesis
    using same_second_backup_replaced[OF h1 h2 h1 h2 refl refl h3 h4 h5 h6
            ex_after_first_def ex_after_second_def] p
    by (simp add: ex_backup_name)
qed

text \<open>
  On POSIX, after two runs in the same second on a world that holds \<open>a.py\<close> only, the
  second run has returned normally and no file holds the original content any more.
\<close>

theorem same_second_backup_counterexample:
  "backup_filename ex_env ''a.py'' = ''a.py.20250309140500.bak''
   \<and> files ex_after_first ''a.py.20250309140500.bak'' = Some (Text ''def f(x): return x+'')
   \<and> fst (validate_and_save ex_env ''a.py'' ex_second ex_after_first) = Inr ()
   \<and> files ex_after_second =
        [''a.py.20250309140500.bak'' \<mapsto> Text ''def f(x): return x'',
         ''a.py'' \<mapsto> Text ''def f(x): return 2 * x'']
   \<and> Text ''def f(x): return x+'' \<notin> ran (files ex_after_second)"
proof -
  have h1: "stdin ex_env = Some ''y''" by (simp add: ex_env_def)
  have h2: "lower (strip ''y'') = ''y''" by code_simp
  have f1: "files ex_after_first = [''a.py.20250309140500.bak'' \<mapsto> Text ''def f(x): return x+'',
                ''a.py'' \<mapsto> Text ''def f(x): return x'']"
    by (simp add: ex_after_first_def ex_first_run)
  have h3: "files ex_after_first ''a.py'' = Some (Text ''def f(x): return x'')"
    by (simp add: f1)
  have h4: "field_of ex_second ''fixed_code'' = Some (JStr ''def f(x): return 2 * x'')"
    by (simp add: ex_second_def)
  have h5: "platform ex_env = Posix \<or> files ex_after_first (backup_filename ex_env ''a.py'') = None"
    by (simp add: ex_env_def)
  have px: "platform ex_env = Posix" by (simp add: ex_env_def)
  have r2: "fst (validate_and_save ex_env ''a.py'' ex_second ex_after_first) = Inr ()"
    and f2: "files ex_after_second =
        [''a.py.20250309140500.bak'' \<mapsto> Text ''def f(x): return x'',
         ''a.py'' \<mapsto> Text ''def f(x): return 2 * x'']"
    using save_affirmative[OF h1 h2 h3 h4 h5] px
    by (simp_all add: ex_after_second_def ex_backup_name f1 os_text_def)
  have "Text ''def f(x): return x+'' \<notin> ran (files ex_after_second)"
    unfolding f2 by (auto simp: ran_def split: if_splits)
  then show ?thesis using r2 f2 f1 by (simp add: ex_backup_name)
qed

text \<open>
  \<^bold>\<open>C6.\<close> When the availability check returns \<open>False\<close>, the program exits with status 1
  after the GET and one printed line; it issues no POST to the chat-completions
  endpoint.
\<close>

theorem unavailable_exits_without_post:
  assumes "\<not> fst (check_server_available env w)"
  shows "fst (main env w) = 1
     \<and> log (snd (main env w)) =
         log w @ [HttpGet (BASE_URL @ ''/models'') 5,
                  Print (Line (''LM Studio server not available. Please ensure it's running at ''
                               @ BASE_URL))]
     \<and> filter is_post (log (snd (main env w))) = filter is_post (log w)"
  using assms
  by (cases "get_reply env") (auto simp: main_def check_server_available_def emit_def)

theorem unavailable_exits_without_post_witness:
  "\<not> fst (check_server_available (ex_env\<lparr>get_reply := NetworkError\<rparr>) ex_world)
   \<and> fst (main (ex_env\<lparr>get_reply := NetworkError\<rparr>) ex_world) = 1
   \<and> filter is_post (log (snd (main (ex_env\<lparr>get_reply := NetworkError\<rparr>) ex_world))) = []"
proof -
  have h: "\<not> fst (check_server_available (ex_env\<lparr>get_reply := NetworkError\<rparr>) ex_world)"
    by (simp add: check_server_available_def)
  show ?thesis
    using h unavailable_exits_without_post[OF h] by (simp add: ex_world_def)
qed

text \<open>
  \<^bold>\<open>C7.\<close> The availability check always returns a bool: \<open>True\<close> exactly when the GET to
  the models endpoint yields a response of status 200, hence \<open>False\<close> for every other
  status and for every \<open>RequestException\<close>; its one effect is that GET.
\<close>

theorem check_server_available_iff_200:
  "fst (check_server_available env w) = (\<exists>r. get_reply env = Response r \<and> status_code r = 200)
   \<and> snd (check_server_available env w) = emit (HttpGet (BASE_URL @ ''/models'') 5) w"
  by (cases "get_reply env") (simp_all add: check_server_available_def)

text \<open>
  \<^bold>\<open>C8.\<close> When the chat endpoint answers with a status other than 200, the analysis
  raises an exception whose message holds the status code in decimal and the raw body of
  the response; the program exits with status 1 and every file is as it was.
\<close>

theorem api_error_carries_status_and_body:
  assumes "post_reply env = Response r" and "status_code r \<noteq> 200"
  shows "fst (analyze_and_fix_code env code w) =
           Inl (Exception (''API request failed: '' @ str_int (status_code r)
                           @ ''\<newline>'' @ resp_text r))
     \<and> fst (main env w) = 1 \<and> files (snd (main env w)) = files w"
proof -
  have a: "fst (analyze_and_fix_code env code' w') =
           Inl (Exception (''API request failed: '' @ str_int (status_code r)
                           @ ''\<newline>'' @ resp_text r))" for code' w'
    using assms by (simp add: analyze_fst)
  have "fst (main env w) = 1 \<and> files (snd (main env w)) = files w"
    by (rule main_fails) (simp add: a)
  then show ?thesis using a by simp
qed

theorem api_error_carries_status_and_body_witness:
  "fst (analyze_and_fix_code (ex_env\<lparr>post_reply := ex_error_reply\<rparr>)
          (Str ''def f(x): return x+'') ex_world)
     = Inl (Exception ''API request failed: 404\<newline>model not found'')
   \<and> fst (main (ex_env\<lparr>post_reply := ex_error_reply\<rparr>) ex_world) = 1
   \<and> files (snd (main (ex_env\<lparr>post_reply := ex_error_reply\<rparr>) ex_world)) = files ex_world"
  using api_error_carries_status_and_body
          [of "ex_env\<lparr>post_reply := ex_error_reply\<rparr>"
              "\<lparr>status_code = 404, resp_text = ''model not found'', resp_json = None\<rparr>"
              "Str ''def f(x): return x+''" ex_world]
  by (simp add: ex_error_reply_def str_int_def)

text \<open>
  \<^bold>\<open>C9.\<close> The confirmation is compared after \<open>strip()\<close> and \<open>lower()\<close>. The test succeeds
  exactly on the inputs that are \<open>y\<close> or \<open>Y\<close> between two runs of whitespace; on these the
  step goes on to the rename, and on every other input it prints the cancellation notice
  and returns.
\<close>

theorem confirmation_stripped_lowercased:
  assumes "stdin env = Some line"
  shows "((lower (strip line) = ''y'') =
            (\<exists>a b c. line = a @ [c] @ b \<and> (\<forall>x\<in>set a. isspace x) \<and> (\<forall>x\<in>set b. isspace x)
                     \<and> (c = CHR ''y'' \<or> c = CHR ''Y'')))
     \<and> (lower (strip line) = ''y'' \<longrightarrow>
          (\<exists>rest. log (snd (validate_and_save env filename result w)) =
                    log w @ Input ''\<newline>Apply these changes? [y/N]: ''
                          # Rename filename (backup_filename env filename) # rest))
     \<and> (lower (strip line) \<noteq> ''y'' \<longrightarrow>
          validate_and_save env filename result w =
            (Inr (), w\<lparr>log := log w @ [Input ''\<newline>Apply these changes? [y/N]: '',
                                       Print (Line ''Operation cancelled.'')]\<rparr>))"
  using affirmative_iff[of line] save_affirmative_log[OF assms] save_declined[OF assms]
  by blast

theorem confirmation_stripped_lowercased_witness:
  "lower (strip '' Y '') = ''y''
   \<and> (\<exists>a b c. '' Y '' = a @ [c] @ b \<and> (\<forall>x\<in>set a. isspace x) \<and> (\<forall>x\<in>set b. isspace x)
                \<and> (c = CHR ''y'' \<or> c = CHR ''Y''))
   \<and> (\<exists>rest. log (snd (validate_and_save (ex_env\<lparr>stdin := Some '' Y ''\<rparr>) ''a.py'' ex_result ex_world)) =
          Input ''\<newline>Apply these changes? [y/N]: ''
          # Rename ''a.py'' ''a.py.20250309140500.bak'' # rest)
   \<and> lower (strip ''yes'') \<noteq> ''y''
   \<and> validate_and_save (ex_env\<lparr>stdin := Some ''yes''\<rparr>) ''a.py'' ex_result ex_world =
        (Inr (), ex_world\<lparr>log := [Input ''\<newline>Apply these changes? [y/N]: '',
                                   Print (Line ''Operation cancelled.'')]\<rparr>)"
proof -
  have y: "lower (strip '' Y '') = ''y''" by code_simp
  have n: "lower (strip ''yes'') \<noteq> ''y''" by code_simp
  have h1: "stdin (ex_env\<lparr>stdin := Some '' Y ''\<rparr>) = Some '' Y ''" by simp
  have h2: "stdin (ex_env\<lparr>stdin := Some ''yes''\<rparr>) = Some ''yes''" by simp
  have w0: "log ex_world = []" by (simp add: ex_world_def)
  note a = confirmation_stripped_lowercased[OF h1, of "''a.py''" ex_result ex_world]
  note d = confirmation_stripped_lowercased[OF h2, of "''a.py''" ex_result ex_world]
  have shape: "\<exists>a b c. '' Y '' = a @ [c] @ b \<and> (\<forall>x\<in>set a. isspace x) \<and> (\<forall>x\<in>set b. isspace x)
                \<and> (c = CHR ''y'' \<or> c = CHR ''Y'')"
    using a y by blast
  have rename: "\<exists>rest. log (snd (validate_and_save (ex_env\<lparr>stdin := Some '' Y ''\<rparr>) ''a.py'' ex_result ex_world)) =
          Input ''\<newline>Apply these changes? [y/N]: ''
          # Rename ''a.py'' ''a.py.20250309140500.bak'' # rest"
    using a y by (simp add: ex_backup_name_upd w0)
  have cancel: "validate_and_save (ex_env\<lparr>stdin := Some ''yes''\<rparr>) ''a.py'' ex_result ex_world =
        (Inr (), ex_world\<lparr>log := [Input ''\<newline>Apply these changes? [y/N]: '',
                                   Print (Line ''Operation cancelled.'')]\<rparr>)"
    using d n by (simp add: w0)
  show ?thesis using y n shape rename cancel by blast
qed

text \<open>
  \<^bold>\<open>C10.\<close> When the chat endpoint answers with status 200 and a JSON body that has no
  \<open>choices\<close>, an empty list of choices, a first choice without \<open>message\<close> or a message
  without \<open>content\<close>, the program exits with status 1 and every file is as it was.
\<close>

theorem malformed_structure_exit:
  assumes "post_reply env = Response r" and "status_code r = 200"
    and "resp_json r = Some data"
    and "field_of data ''choices'' = None
         \<or> field_of data ''choices'' = Some (JArr [])
         \<or> (\<exists>c cs. field_of data ''choices'' = Some (JArr (c # cs))
               \<and> (field_of c ''message'' = None
                  \<or> (\<exists>m. field_of c ''message'' = Some m \<and> field_of m ''content'' = None)))"
  shows "fst (main env w) = 1 \<and> files (snd (main env w)) = files w"
proof (rule main_fails)
  fix code w' v
  assume a: "fst (analyze_and_fix_code env code w') = Inr v"
  have "isl (subscripts data [KStr ''choices'', KInt 0, KStr ''message'', KStr ''content''])"
    using assms(4) by (rule deviating_body)
  then have "isl (fst (analyze_and_fix_code env code w'))"
    using assms(1-3) by (auto simp: analyze_fst split: sum.splits)
  then show "\<not> has_all_fields v" using a by simp
qed

theorem malformed_structure_exit_witness:
  "field_of (JObj [(''choices'', JArr [])]) ''choices'' = Some (JArr [])
   \<and> fst (main (ex_env\<lparr>post_reply := ex_no_choices_reply\<rparr>) ex_world) = 1
   \<and> files (snd (main (ex_env\<lparr>post_reply := ex_no_choices_reply\<rparr>) ex_world)) = files ex_world"
proof -
  let ?env = "ex_env\<lparr>post_reply := ex_no_choices_reply\<rparr>"
  let ?d = "JObj [(''choices'', JArr [])]"
  let ?r = "\<lparr>status_code = 200, resp_text = [], resp_json = Some ?d\<rparr>"
  have h1: "post_reply ?env = Response ?r" by (simp add: ex_no_choices_reply_def)
  have h2: "status_code ?r = 200" by simp
  have h3: "resp_json ?r = Some ?d" by simp
  have c: "field_of ?d ''choices'' = Some (JArr [])" by simp
  then have h4: "field_of ?d ''choices'' = None
         \<or> field_of ?d ''choices'' = Some (JArr [])
         \<or> (\<exists>c cs. field_of ?d ''choices'' = Some (JArr (c # cs))
               \<and> (field_of c ''message'' = None
                  \<or> (\<exists>m. field_of c ''message'' = Some m \<and> field_of m ''content'' = None)))"
    by simp
  show ?thesis
    using c malformed_structure_exit[OF h1 h2 h3 h4, of ex_world] by simp
qed

end
